theory Spec2Isabelle
  imports Complex_Main "HOL-Library.Stream"
begin

section \<open>Data model\<close>

text \<open>
  The program builds one pandas table, column by column, and mutates it in place.
  A table is a list of rows in index order (the index is the default one, 0 to N-1).
  A cell that the missing-value step may null is an option: \<open>None\<close> is NaN.
  Floats are reals and the arithmetic on them is exact, except in the test of the
  prevalence adjustment loop (step 11), where rounding decides whether the loop ends.
\<close>

datatype gender = Male | Female

datatype smoking = Never | Quit | Smoker

datatype level = Low | High

datatype error =
  ValueError | ZeroDivisionError | KeyError | TypeError | FileNotFoundError | ParserError

text \<open>The columns that exist when \<open>calculate_risk\<close> is applied (steps 1 to 6).\<close>

record person =
  row_id :: int
  age :: int
  gender :: "gender option"
  height_cm :: "real option"
  weight_kg :: "real option"
  belly_circumference_cm :: "real option"
  smoking_status :: "smoking option"
  exercise_frequency :: "level option"
  salt_consumption :: "level option"
  sugar_consumption :: "level option"
  self_emotional :: "int option"
  family_history :: "int option"

text \<open>
  Step 7 adds the label and step 9 the timestamp, the latter as the number of days
  after 2023-01-01.
\<close>

record labelled = person +
  label_hypertension :: int

record row = labelled +
  input_time :: int

section \<open>The random generator\<close>

text \<open>
  numpy's global generator is not part of the repository. Its state is the stream of
  raw draws still to come; every sampling call takes the head of the stream and maps it
  onto the support of its distribution, so that each outcome numpy can produce is
  produced by some stream.
\<close>

type_synonym rng = "real stream"

definition normal :: "real \<Rightarrow> real \<Rightarrow> rng \<Rightarrow> real \<times> rng" where
  \<comment> \<open>\<open>np.random.normal(loc, scale)\<close>: the raw draw is the standard normal variate.\<close>
  "normal loc scale g = (loc + scale * shd g, stl g)"

definition randint :: "nat \<Rightarrow> rng \<Rightarrow> nat \<times> rng" where
  \<comment> \<open>a uniform index below \<open>k\<close>\<close>
  "randint k g = (nat \<lfloor>shd g\<rfloor> mod k, stl g)"

definition choice :: "'a list \<Rightarrow> rng \<Rightarrow> 'a \<times> rng" where
  \<comment> \<open>\<open>np.random.choice(xs)\<close> on a non-empty literal list\<close>
  "choice xs g = (case randint (length xs) g of (i, g') \<Rightarrow> (xs ! i, g'))"

fun choice_cdf :: "real list \<Rightarrow> real \<Rightarrow> nat" where
  "choice_cdf [] u = 0"
| "choice_cdf (p # ps) u = (if u < p then 0 else Suc (choice_cdf ps (u - p)))"

definition choice_p :: "'a list \<Rightarrow> real list \<Rightarrow> rng \<Rightarrow> 'a \<times> rng" where
  \<comment> \<open>\<open>np.random.choice(xs, p=ps)\<close>: the raw draw is searched in the cumulative sums\<close>
  "choice_p xs ps g = (xs ! min (choice_cdf ps (shd g)) (length xs - 1), stl g)"

definition binomial1 :: "real \<Rightarrow> rng \<Rightarrow> int \<times> rng" where
  \<comment> \<open>\<open>np.random.binomial(1, p)\<close>\<close>
  "binomial1 p g = ((if shd g < p then 1 else 0), stl g)"

definition random :: "rng \<Rightarrow> real \<times> rng" where
  \<comment> \<open>\<open>np.random.random()\<close>\<close>
  "random g = (shd g, stl g)"

fun sample_n :: "nat \<Rightarrow> (rng \<Rightarrow> 'a \<times> rng) \<Rightarrow> rng \<Rightarrow> 'a list \<times> rng" where
  \<comment> \<open>a sampling call with \<open>size=n\<close>: \<open>n\<close> draws in sequence\<close>
  "sample_n 0 f g = ([], g)"
| "sample_n (Suc n) f g =
     (case f g of (x, g') \<Rightarrow> case sample_n n f g' of (xs, g'') \<Rightarrow> (x # xs, g''))"

fun apply_rows :: "('r \<Rightarrow> rng \<Rightarrow> 'a \<times> rng) \<Rightarrow> 'r list \<Rightarrow> rng \<Rightarrow> 'a list \<times> rng" where
  \<comment> \<open>\<open>data.apply(f, axis=1)\<close> for an \<open>f\<close> that draws: one call per row, in index order\<close>
  "apply_rows f [] g = ([], g)"
| "apply_rows f (r # rs) g =
     (case f r g of (x, g') \<Rightarrow> case apply_rows f rs g' of (xs, g'') \<Rightarrow> (x # xs, g''))"

definition remove_nth :: "nat \<Rightarrow> 'a list \<Rightarrow> 'a list" where
  "remove_nth j xs = take j xs @ drop (Suc j) xs"

fun choice_distinct :: "nat list \<Rightarrow> nat \<Rightarrow> rng \<Rightarrow> nat list \<times> rng" where
  \<comment> \<open>\<open>np.random.choice(N, n, replace=False)\<close>: \<open>n\<close> picks from a shrinking pool\<close>
  "choice_distinct pool 0 g = ([], g)"
| "choice_distinct pool (Suc k) g =
     (if pool = [] then ([], g)
      else case randint (length pool) g of (j, g') \<Rightarrow>
        case choice_distinct (remove_nth j pool) k g' of (js, g'') \<Rightarrow> (pool ! j # js, g''))"

section \<open>Steps 1 to 6: features\<close>

definition clip :: "real \<Rightarrow> real \<Rightarrow> real \<Rightarrow> real" where
  "clip x lo hi = min (max x lo) hi"

definition py_int :: "real \<Rightarrow> int" where
  \<comment> \<open>\<open>int(x)\<close> and \<open>astype(int)\<close> truncate towards zero\<close>
  "py_int x = (if 0 \<le> x then \<lfloor>x\<rfloor> else \<lceil>x\<rceil>)"

definition base_bmi :: "int \<Rightarrow> rng \<Rightarrow> real \<times> rng" where
  "base_bmi a g = (if a < 35 then normal 28 5 g else normal 25 4 g)"

definition generate_weight :: "real \<Rightarrow> int \<Rightarrow> rng \<Rightarrow> real \<times> rng" where
  "generate_weight height a g =
     (case base_bmi a g of (b, g') \<Rightarrow> (b * (height / 100)\<^sup>2, g'))"

definition generate_belly :: "real \<Rightarrow> int \<Rightarrow> rng \<Rightarrow> real \<times> rng" where
  "generate_belly weight a g =
     (case normal 0 5 g of (e, g') \<Rightarrow> (weight * 0.5 + (if a < 35 then 60 else 50) + e, g'))"

definition get_lifestyle_probs :: "int \<Rightarrow> real list \<times> real list \<times> real list \<times> real list" where
  "get_lifestyle_probs a =
     (if a < 35 then ([0.4, 0.1, 0.5], [0.7, 0.3], [0.3, 0.7], [0.3, 0.7])
      else ([0.6, 0.3, 0.1], [0.4, 0.6], [0.6, 0.4], [0.6, 0.4]))"

definition sample_features :: "int \<Rightarrow> rng \<Rightarrow> error + person list \<times> rng" where
  \<comment> \<open>numpy rejects a negative size; the DataFrame constructor rejects columns of
      different lengths, which is what an odd \<open>n_samples\<close> gives\<close>
  "sample_features n_samples g =
     (if n_samples div 2 < 0 then Inl ValueError
      else
        let (young, g1) = sample_n (nat (n_samples div 2)) (normal 25 5) g;
            (old, g2) = sample_n (nat (n_samples div 2)) (normal 50 15) g1;
            age_distribution = young @ old;
            ages = map (\<lambda>x. py_int (clip x 15 90)) age_distribution;
            (genders, g3) = sample_n (nat n_samples) (choice [Male, Female]) g2
        in if int (length ages) \<noteq> n_samples then Inl ValueError
        else
          let (male_heights, g4) = sample_n (nat n_samples) (normal 175 7) g3;
              (female_heights, g5) = sample_n (nat n_samples) (normal 162 6) g4;
              heights = map (\<lambda>(s, m, f). if s = Male then m else f)
                          (zip genders (zip male_heights female_heights));
              (weights, g6) = apply_rows (\<lambda>(h, a). generate_weight h a) (zip heights ages) g5;
              (bellies, g7) = apply_rows (\<lambda>(w, a). generate_belly w a) (zip weights ages) g6;
              (smokings, g8) =
                apply_rows (\<lambda>a. choice_p [Never, Quit, Smoker] (fst (get_lifestyle_probs a)))
                  ages g7;
              (exercises, g9) =
                apply_rows (\<lambda>a. choice_p [Low, High] (fst (snd (get_lifestyle_probs a))))
                  ages g8;
              (salts, g10) =
                apply_rows (\<lambda>a. choice_p [Low, High] (fst (snd (snd (get_lifestyle_probs a)))))
                  ages g9;
              (sugars, g11) =
                apply_rows (\<lambda>a. choice_p [Low, High] (snd (snd (snd (get_lifestyle_probs a)))))
                  ages g10;
              (emotionals, g12) = sample_n (nat n_samples) (binomial1 0.5) g11;
              (histories, g13) = sample_n (nat n_samples) (binomial1 0.3) g12
          in Inr (map (\<lambda>i. \<lparr>row_id = int i + 1, age = ages ! i, gender = Some (genders ! i),
                              height_cm = Some (heights ! i), weight_kg = Some (weights ! i),
                              belly_circumference_cm = Some (bellies ! i),
                              smoking_status = Some (smokings ! i),
                              exercise_frequency = Some (exercises ! i),
                              salt_consumption = Some (salts ! i),
                              sugar_consumption = Some (sugars ! i),
                              self_emotional = Some (emotionals ! i),
                              family_history = Some (histories ! i)\<rparr>)
                     [0..<nat n_samples], g13))"

section \<open>Step 7: the risk scorer\<close>

text \<open>
  A row handed to \<open>calculate_risk\<close> holds Python floats, so a zero height raises
  ZeroDivisionError; a NaN operand gives NaN, and every comparison with NaN is false.
\<close>

definition bmi_of :: "'a person_scheme \<Rightarrow> error + real option" where
  "bmi_of r =
     (case height_cm r of
        None \<Rightarrow> Inr None
      | Some h \<Rightarrow>
          if (h / 100)\<^sup>2 = 0 then Inl ZeroDivisionError
          else (case weight_kg r of None \<Rightarrow> Inr None | Some w \<Rightarrow> Inr (Some (w / (h / 100)\<^sup>2))))"

definition nan_ge :: "real option \<Rightarrow> real \<Rightarrow> bool" where
  "nan_ge x c = (case x of None \<Rightarrow> False | Some v \<Rightarrow> c \<le> v)"

definition is_young :: "'a person_scheme \<Rightarrow> bool" where
  "is_young r = (age r < 35)"

definition genetic_score :: "'a person_scheme \<Rightarrow> real" where
  "genetic_score r =
     clip (((if family_history r = Some 1 then 1.5 else 0)
            + (if 60 \<le> age r then 1.2 else if 45 \<le> age r then 0.9
               else if 35 \<le> age r then 0.6 else 0)
            + (if gender r = Some Male then 0.2 else 0)) / 3.0) 0 1"

definition lifestyle_score :: "'a person_scheme \<Rightarrow> real" where
  "lifestyle_score r =
     clip (((if salt_consumption r = Some High then (if is_young r then 1.5 else 1.2) else 0)
            + (if sugar_consumption r = Some High then (if is_young r then 1.3 else 1.0) else 0)
            + (if exercise_frequency r = Some Low then (if is_young r then 1.4 else 1.0) else 0)
            + (if smoking_status r = Some Smoker then (if is_young r then 1.2 else 0.8)
               else if smoking_status r = Some Quit then (if is_young r then 0.6 else 0.4)
               else 0)) / (if is_young r then 5.0 else 4.0)) 0 1"

definition waist_ratio :: "'a person_scheme \<Rightarrow> real option" where
  "waist_ratio r =
     map_option (\<lambda>b. b / (if gender r = Some Female then 88 else 102))
       (belly_circumference_cm r)"

definition health_score :: "real option \<Rightarrow> 'a person_scheme \<Rightarrow> real" where
  "health_score bmi r =
     clip (((if nan_ge bmi 35 then (if is_young r then 1.3 else 1.1)
             else if nan_ge bmi 30 then (if is_young r then 1.0 else 0.8)
             else if nan_ge bmi 25 then (if is_young r then 0.7 else 0.5) else 0)
            + (if nan_ge (waist_ratio r) 1.2 then (if is_young r then 1.2 else 1.0)
               else if nan_ge (waist_ratio r) 1.0 then (if is_young r then 0.9 else 0.7)
               else 0)) / (if is_young r then 2.5 else 2.1)) 0 1"

definition risk_before_noise :: "real option \<Rightarrow> 'a person_scheme \<Rightarrow> real" where
  \<comment> \<open>the value of \<open>risk\<close> just before the noise is added\<close>
  "risk_before_noise bmi r =
     (if is_young r then
        0.25 * genetic_score r + 0.45 * lifestyle_score r + 0.30 * health_score bmi r
        + (if 0.6 < lifestyle_score r \<and> 0.6 < health_score bmi r then 0.2 else 0)
        + (if family_history r = Some 1 \<and> 0.6 < lifestyle_score r then 0.15 else 0)
      else
        0.35 * genetic_score r + 0.33 * lifestyle_score r + 0.32 * health_score bmi r
        + (if 0.7 < lifestyle_score r \<and> 0.7 < health_score bmi r then 0.1 else 0)
        + (if family_history r = Some 1 \<and> 0.7 < lifestyle_score r then 0.1 else 0))"

definition calculate_risk :: "'a person_scheme \<Rightarrow> rng \<Rightarrow> error + real \<times> rng" where
  "calculate_risk r g =
     (case bmi_of r of
        Inl e \<Rightarrow> Inl e
      | Inr bmi \<Rightarrow>
          (case normal 0 0.02 g of (e, g') \<Rightarrow> Inr (clip (risk_before_noise bmi r + e) 0 1, g')))"

definition raising :: "error + 'a \<Rightarrow> ('a \<Rightarrow> error + 'b) \<Rightarrow> error + 'b" where
  \<comment> \<open>sequencing of statements: an exception ends the run\<close>
  "raising x f = (case x of Inl e \<Rightarrow> Inl e | Inr v \<Rightarrow> f v)"

definition sigmoid :: "real \<Rightarrow> real" where
  "sigmoid p = 1 / (1 + exp (- 12 * (p - 0.5)))"

fun apply_risk :: "'a person_scheme list \<Rightarrow> rng \<Rightarrow> error + real list \<times> rng" where
  \<comment> \<open>\<open>data.apply(calculate_risk, axis=1)\<close>: the first exception ends the run\<close>
  "apply_risk [] g = Inr ([], g)"
| "apply_risk (r # rs) g =
     (case calculate_risk r g of
        Inl e \<Rightarrow> Inl e
      | Inr (p, g') \<Rightarrow>
          (case apply_risk rs g' of Inl e \<Rightarrow> Inl e | Inr (ps, g'') \<Rightarrow> Inr (p # ps, g'')))"

definition with_label :: "person \<Rightarrow> int \<Rightarrow> labelled" where
  "with_label r l =
     \<lparr>row_id = row_id r, age = age r, gender = gender r, height_cm = height_cm r,
      weight_kg = weight_kg r, belly_circumference_cm = belly_circumference_cm r,
      smoking_status = smoking_status r, exercise_frequency = exercise_frequency r,
      salt_consumption = salt_consumption r, sugar_consumption = sugar_consumption r,
      self_emotional = self_emotional r, family_history = family_history r,
      label_hypertension = l\<rparr>"

definition sample_labels :: "person list \<Rightarrow> rng \<Rightarrow> error + labelled list \<times> rng" where
  "sample_labels data g =
     (case apply_risk data g of
        Inl e \<Rightarrow> Inl e
      | Inr (probabilities, g1) \<Rightarrow>
          (case apply_rows binomial1 (map sigmoid probabilities) g1 of
             (labels, g2) \<Rightarrow> Inr (map2 with_label data labels, g2)))"

section \<open>Step 8: outliers\<close>

definition loc_assign ::
  "nat list \<Rightarrow> 'v list \<Rightarrow> ('r \<Rightarrow> 'v \<Rightarrow> 'r) \<Rightarrow> 'r list \<Rightarrow> error + 'r list" where
  \<comment> \<open>\<open>data.loc[idxs, col] = vals\<close> for an array of values: pandas raises KeyError for a
      label that is not in the index, and ValueError when rows are selected and the
      number of values is not the number of rows (the step below never selects no
      rows for some values)\<close>
  "loc_assign idxs vals upd data =
     (if \<exists>i \<in> set idxs. length data \<le> i then Inl KeyError
      else if length idxs \<noteq> length vals then Inl ValueError
      else Inr (fold (\<lambda>(i, v) d. d[i := upd (d ! i) v]) (zip idxs vals) data))"

definition py_slice :: "nat \<Rightarrow> nat \<Rightarrow> 'a list \<Rightarrow> 'a list" where
  \<comment> \<open>\<open>xs[a:b]\<close> for bounds that are not negative\<close>
  "py_slice a b xs = take (b - a) (drop a xs)"

definition n_outliers_of :: "int \<Rightarrow> nat" where
  "n_outliers_of n_samples = nat (py_int (real_of_int n_samples * 0.02))"

definition add_outliers ::
  "int \<Rightarrow> 'a person_scheme list \<Rightarrow> rng \<Rightarrow> error + 'a person_scheme list \<times> rng" where
  "add_outliers n_samples data g =
     (let n_outliers = n_outliers_of n_samples;
          (outlier_indices, g1) = choice_distinct [0..<nat n_samples] n_outliers g;
          (ws, g2) = sample_n (n_outliers div 4) (choice [1, 2, 800, 1000]) g1
      in raising
        (loc_assign (take (n_outliers div 4) outlier_indices) ws
           (\<lambda>r v. r\<lparr>weight_kg := Some v\<rparr>) data)
        (\<lambda>d1. let (hs, g3) = sample_n (n_outliers div 4) (choice [10, 15, 350, 400]) g2
          in raising
            (loc_assign (py_slice (n_outliers div 4) (n_outliers div 2) outlier_indices) hs
               (\<lambda>r v. r\<lparr>height_cm := Some v\<rparr>) d1)
            (\<lambda>d2. let (bs, g4) = sample_n (n_outliers div 4) (choice [10, 15, 400, 500]) g3
              in raising
                (loc_assign
                   (py_slice (n_outliers div 2) (3 * n_outliers div 4) outlier_indices) bs
                   (\<lambda>r v. r\<lparr>belly_circumference_cm := Some v\<rparr>) d2)
                (\<lambda>d3. let (as, g5) =
                           sample_n (n_outliers div 4) (choice [1, 2, 3, 120, 130, 140]) g4
                  in raising
                    (loc_assign (drop (3 * n_outliers div 4) outlier_indices) as
                       (\<lambda>r v. r\<lparr>age := v\<rparr>) d3)
                    (\<lambda>d4. Inr (d4, g5))))))"

section \<open>Steps 9 and 10: timestamps and missing values\<close>

definition with_time :: "labelled \<Rightarrow> nat \<Rightarrow> row" where
  "with_time r d =
     \<lparr>row_id = row_id r, age = age r, gender = gender r, height_cm = height_cm r,
      weight_kg = weight_kg r, belly_circumference_cm = belly_circumference_cm r,
      smoking_status = smoking_status r, exercise_frequency = exercise_frequency r,
      salt_consumption = salt_consumption r, sugar_consumption = sugar_consumption r,
      self_emotional = self_emotional r, family_history = family_history r,
      label_hypertension = label_hypertension r, input_time = int d\<rparr>"

definition add_timestamps :: "int \<Rightarrow> labelled list \<Rightarrow> rng \<Rightarrow> row list \<times> rng" where
  "add_timestamps n_samples data g =
     (case sample_n (nat n_samples) (randint 365) g of
        (random_days, g') \<Rightarrow> (map2 with_time data random_days, g'))"

definition missing_probs :: "(('a person_scheme \<Rightarrow> 'a person_scheme) \<times> real) list" where
  \<comment> \<open>each column of the source's dict, as the update that nulls its cell\<close>
  "missing_probs =
     [(\<lambda>r. r\<lparr>self_emotional := None\<rparr>, 0.90),
      (\<lambda>r. r\<lparr>sugar_consumption := None\<rparr>, 0.05),
      (\<lambda>r. r\<lparr>salt_consumption := None\<rparr>, 0.05),
      (\<lambda>r. r\<lparr>exercise_frequency := None\<rparr>, 0.07),
      (\<lambda>r. r\<lparr>smoking_status := None\<rparr>, 0.03),
      (\<lambda>r. r\<lparr>gender := None\<rparr>, 0.02),
      (\<lambda>r. r\<lparr>weight_kg := None\<rparr>, 0.03),
      (\<lambda>r. r\<lparr>height_cm := None\<rparr>, 0.03),
      (\<lambda>r. r\<lparr>belly_circumference_cm := None\<rparr>, 0.03),
      (\<lambda>r. r\<lparr>family_history := None\<rparr>, 0.03)]"

definition null_column ::
  "('r \<Rightarrow> 'r) \<times> real \<Rightarrow> 'r list \<times> rng \<Rightarrow> 'r list \<times> rng" where
  "null_column cp s =
     (case sample_n (length (fst s)) random (snd s) of
        (us, g') \<Rightarrow> (map2 (\<lambda>r u. if u < snd cp then fst cp r else r) (fst s) us, g'))"

definition add_missing :: "'a person_scheme list \<Rightarrow> rng \<Rightarrow> 'a person_scheme list \<times> rng" where
  "add_missing data g = fold null_column missing_probs (data, g)"

section \<open>Step 11: prevalence adjustment\<close>

text \<open>
  The test of the loop is computed in double precision: the mean is the quotient of the
  label count by the row count, rounded to a double; its difference from the target is
  rounded again; and the literal \<open>0.01\<close> is the double nearest to 1/100. \<open>fl\<close> is the map
  from a real to the double that stands for it. The comparisons themselves are exact.
  IEEE arithmetic is not part of the repository, so \<open>fl\<close> is a parameter of the loop.
\<close>

definition label_mean :: "(real \<Rightarrow> real) \<Rightarrow> 'a labelled_scheme list \<Rightarrow> real option" where
  \<comment> \<open>\<open>data['label_hypertension'].mean()\<close>; it is NaN on an empty column\<close>
  "label_mean fl data =
     (if data = [] then None
      else Some (fl (real_of_int (sum_list (map label_hypertension data)) / real (length data))))"

definition beyond_tolerance :: "(real \<Rightarrow> real) \<Rightarrow> real \<Rightarrow> real \<Rightarrow> bool" where
  \<comment> \<open>\<open>abs(mean - target_prevalence) > 0.01\<close>\<close>
  "beyond_tolerance fl m target_prevalence = (\<bar>fl (m - target_prevalence)\<bar> > fl 0.01)"

definition flip_one ::
  "int \<Rightarrow> rng \<times> 'a labelled_scheme list \<Rightarrow> error + rng \<times> 'a labelled_scheme list" where
  \<comment> \<open>\<open>idx = data[data['label_hypertension'] == l].sample(1).index[0]\<close>, then the
      label at \<open>idx\<close> is set to \<open>1 - l\<close>; sampling from no rows raises ValueError\<close>
  "flip_one l s =
     (let data = snd s;
          candidates = filter (\<lambda>i. label_hypertension (data ! i) = l) [0..<length data]
      in if candidates = [] then Inl ValueError
         else case randint (length candidates) (fst s) of
           (k, g') \<Rightarrow>
             Inr (g', data[candidates ! k :=
                        (data ! (candidates ! k))\<lparr>label_hypertension := 1 - l\<rparr>]))"

partial_function (option) adjust_prevalence ::
  "(real \<Rightarrow> real) \<Rightarrow> real \<Rightarrow> rng \<times> 'a labelled_scheme list \<Rightarrow>
     (error + rng \<times> 'a labelled_scheme list) option"
where
  "adjust_prevalence fl target_prevalence s =
     (case label_mean fl (snd s) of
        None \<Rightarrow> Some (Inr s)
      | Some m \<Rightarrow>
          if beyond_tolerance fl m target_prevalence then
            (case flip_one (if m > target_prevalence then 1 else 0) s of
               Inl e \<Rightarrow> Some (Inl e)
             | Inr s' \<Rightarrow> adjust_prevalence fl target_prevalence s')
          else Some (Inr s))"

section \<open>The generator function\<close>

text \<open>
  \<open>np.random.seed(42)\<close> replaces the state \<open>g0\<close> that the global generator had before
  the call by the state that numpy derives from the seed 42; \<open>seed\<close> is numpy's map
  from a seed to that state. \<open>None\<close> is a run that never returns.
\<close>

definition table_before_adjustment :: "rng \<Rightarrow> int \<Rightarrow> error + row list \<times> rng" where
  \<comment> \<open>steps 1 to 10 of the function body\<close>
  "table_before_adjustment g n_samples =
     raising (sample_features n_samples g)
       (\<lambda>(data, g). raising (sample_labels data g)
       (\<lambda>(data, g). raising (add_outliers n_samples data g)
       (\<lambda>(data, g). Inr (case add_timestamps n_samples data g of
                            (data, g) \<Rightarrow> add_missing data g))))"

definition create_dummy_data ::
  "(real \<Rightarrow> real) \<Rightarrow> (int \<Rightarrow> rng) \<Rightarrow> rng \<Rightarrow> int \<Rightarrow> real \<Rightarrow> (error + row list) option"
where
  "create_dummy_data fl seed g0 n_samples target_prevalence =
     (case table_before_adjustment (seed 42) n_samples of
        Inl e \<Rightarrow> Some (Inl e)
      | Inr (data, g) \<Rightarrow>
          map_option (map_sum id snd) (adjust_prevalence fl target_prevalence (g, data)))"

text \<open>
  The same steps in the order of the specification's system overview, where the
  prevalence calibrator is stage 5 and runs before the outlier and missing-value
  injectors.
\<close>

definition create_in_spec_order ::
  "(real \<Rightarrow> real) \<Rightarrow> (int \<Rightarrow> rng) \<Rightarrow> rng \<Rightarrow> int \<Rightarrow> real \<Rightarrow> (error + row list) option"
where
  "create_in_spec_order fl seed g0 n_samples target_prevalence =
     (case raising (sample_features n_samples (seed 42)) (\<lambda>(data, g). sample_labels data g) of
        Inl e \<Rightarrow> Some (Inl e)
      | Inr (data, g) \<Rightarrow>
          map_option
            (\<lambda>res. raising res
               (\<lambda>(g, data). raising (add_outliers n_samples data g)
               (\<lambda>(data, g). Inr (fst (case add_timestamps n_samples data g of
                                         (data, g) \<Rightarrow> add_missing data g)))))
            (adjust_prevalence fl target_prevalence (g, data)))"

section \<open>The split utility\<close>

text \<open>
  A table read from a CSV file is a list of named columns. The file system maps a path
  to a file; a file that pandas cannot parse is \<open>Unreadable\<close>.
\<close>

datatype cell = Num real | Str string | NaN

type_synonym table = "(string \<times> cell list) list"

datatype csv_file = Csv table | Unreadable

datatype message =
    Loaded string
  | Total_records nat
  | File_not_found string
  | Load_error error
  | Split_summary nat real nat real
  | Prevalence "real option" "real option"
  | Files_saved string string string
  | Split_error error

record world =
  files :: "string \<rightharpoonup> csv_file"
  printed :: "message list"

datatype 'a outcome = Returned 'a | Raised error

definition path_join :: "string \<Rightarrow> string \<Rightarrow> string" where
  \<comment> \<open>\<open>os.path.join\<close> of two components\<close>
  "path_join a b =
     (if b \<noteq> [] \<and> hd b = CHR ''/'' then b
      else if a = [] \<or> last a = CHR ''/'' then a @ b
      else a @ ''/'' @ b)"

definition len_table :: "table \<Rightarrow> nat" where
  "len_table df = (case df of [] \<Rightarrow> 0 | c # _ \<Rightarrow> length (snd c))"

definition column :: "table \<Rightarrow> string \<Rightarrow> error + cell list" where
  \<comment> \<open>\<open>df[name]\<close>\<close>
  "column df name = (case map_of df name of None \<Rightarrow> Inl KeyError | Some c \<Rightarrow> Inr c)"

definition numbers :: "cell list \<Rightarrow> real list" where
  "numbers cs = concat (map (\<lambda>c. case c of Num x \<Rightarrow> [x] | _ \<Rightarrow> []) cs)"

definition mean_pct :: "cell list \<Rightarrow> error + real option" where
  \<comment> \<open>\<open>float(col.mean() * 100)\<close>: NaN cells are skipped, text raises, no number gives NaN\<close>
  "mean_pct cs =
     (if \<exists>c \<in> set cs. \<exists>t. c = Str t then Inl TypeError
      else if numbers cs = [] then Inr None
      else Inr (Some (sum_list (numbers cs) / real (length (numbers cs)) * 100)))"

definition say :: "message list \<Rightarrow> world \<Rightarrow> world" where
  "say ms w = w\<lparr>printed := printed w @ ms\<rparr>"

definition read_csv :: "world \<Rightarrow> string \<Rightarrow> error + table" where
  "read_csv w path =
     (case files w path of
        None \<Rightarrow> Inl FileNotFoundError
      | Some Unreadable \<Rightarrow> Inl ParserError
      | Some (Csv df) \<Rightarrow> Inr df)"

definition split_body ::
  "(int \<Rightarrow> table \<Rightarrow> cell list \<Rightarrow> error + table \<times> table) \<Rightarrow> string \<Rightarrow> int \<Rightarrow> table \<Rightarrow>
   world \<Rightarrow> (error + table \<times> table) \<times> world" where
  \<comment> \<open>the second \<open>try\<close> block; the world is returned as the exception leaves it\<close>
  "split_body train_test_split input_folder random_state df w =
     (case raising (column df ''label_hypertension'') (train_test_split random_state df) of
        Inl e \<Rightarrow> (Inl e, w)
      | Inr (train_data, test_data) \<Rightarrow>
          let train_path = path_join input_folder ''train_data.csv'';
              test_path = path_join input_folder ''test_data.csv'';
              w1 = w\<lparr>files := (files w)(train_path \<mapsto> Csv train_data)\<rparr>;
              w2 = w1\<lparr>files := (files w1)(test_path \<mapsto> Csv test_data)\<rparr>
          in if len_table df = 0 then (Inl ZeroDivisionError, w2)
             else
               let w3 = say [Split_summary
                               (len_table train_data)
                               (real (len_table train_data) / real (len_table df) * 100)
                               (len_table test_data)
                               (real (len_table test_data) / real (len_table df) * 100)] w2
               in (case raising (column train_data ''label_hypertension'') mean_pct of
                     Inl e \<Rightarrow> (Inl e, w3)
                   | Inr train_prev \<Rightarrow>
                       (case raising (column test_data ''label_hypertension'') mean_pct of
                          Inl e \<Rightarrow> (Inl e, w3)
                        | Inr test_prev \<Rightarrow>
                            (Inr (train_data, test_data),
                             say [Prevalence train_prev test_prev,
                                  Files_saved input_folder train_path test_path] w3))))"

definition split_data ::
  "(int \<Rightarrow> table \<Rightarrow> cell list \<Rightarrow> error + table \<times> table) \<Rightarrow> string \<Rightarrow> string \<Rightarrow> int \<Rightarrow>
   world \<Rightarrow> (table \<times> table) option outcome \<times> world" where
  \<comment> \<open>\<open>train_test_split\<close> is scikit-learn's, taken as a parameter\<close>
  "split_data train_test_split input_folder input_filename random_state w =
     (let input_path = path_join input_folder input_filename
      in case read_csv w input_path of
           Inl e \<Rightarrow>
             if e = FileNotFoundError then (Returned None, say [File_not_found input_path] w)
             else (Returned None, say [Load_error e] w)
         | Inr df \<Rightarrow>
             (case split_body train_test_split input_folder random_state df
                     (say [Loaded input_path, Total_records (len_table df)] w) of
                (Inl e, w') \<Rightarrow> (Raised e, say [Split_error e] w')
              | (Inr res, w') \<Rightarrow> (Returned (Some res), w')))"

section \<open>Notions used in the statements\<close>

definition label_sum :: "'a labelled_scheme list \<Rightarrow> int" where
  "label_sum data = sum_list (map label_hypertension data)"

definition binary :: "'a labelled_scheme list \<Rightarrow> bool" where
  \<comment> \<open>every label is 0 or 1, as the label step draws them\<close>
  "binary data = (\<forall>r \<in> set data. label_hypertension r = 0 \<or> label_hypertension r = 1)"

definition relabelled :: "'a labelled_scheme \<Rightarrow> 'a labelled_scheme \<Rightarrow> bool" where
  \<comment> \<open>the second row is the first one with, possibly, another label\<close>
  "relabelled r r' = (\<exists>l. r' = r\<lparr>label_hypertension := l\<rparr>)"

section \<open>Concrete inputs\<close>

text \<open>
  The row of the specification's scenario. The scenario leaves the gender and the belly
  circumference open, so they are parameters.
\<close>

definition scenario_row :: "gender \<Rightarrow> real \<Rightarrow> person" where
  "scenario_row s b =
     \<lparr>row_id = 1, age = 20, gender = Some s, height_cm = Some 170,
      weight_kg = Some 90, belly_circumference_cm = Some b,
      smoking_status = Some Smoker, exercise_frequency = Some Low,
      salt_consumption = Some High, sugar_consumption = Some High,
      self_emotional = Some 0, family_history = Some 1\<rparr>"

text \<open>Generator states: a stream that starts with \<open>n\<close> zeros, and one with a late 1.\<close>

fun zeros :: "nat \<Rightarrow> rng \<Rightarrow> rng" where
  "zeros 0 s = s"
| "zeros (Suc n) s = 0 ## zeros n s"

definition late_one :: rng where
  \<comment> \<open>28 zeros, a one, then zeros for ever\<close>
  "late_one = zeros 24 (zeros 4 (1 ## sconst 0))"

text \<open>
  Arithmetic that rounds nothing. The runs below have two rows: their means are 0, 1/2
  and 1, which are doubles, and differ from the targets used by 0 or by more than 0.2,
  so that no rounding changes a test of the loop.
\<close>

definition exact :: "real \<Rightarrow> real" where
  "exact x = x"

text \<open>The two rows that the feature steps draw from a stream of zeros.\<close>

definition feature_rows :: "person list" where
  "feature_rows =
     [\<lparr>row_id = 1, age = 25, gender = Some Male, height_cm = Some 175,
       weight_kg = Some (343 / 4), belly_circumference_cm = Some (823 / 8),
       smoking_status = Some Never, exercise_frequency = Some Low,
       salt_consumption = Some Low, sugar_consumption = Some Low,
       self_emotional = Some 1, family_history = Some 1\<rparr>,
      \<lparr>row_id = 2, age = 50, gender = Some Male, height_cm = Some 175,
       weight_kg = Some (1225 / 16), belly_circumference_cm = Some (2825 / 32),
       smoking_status = Some Never, exercise_frequency = Some Low,
       salt_consumption = Some Low, sugar_consumption = Some Low,
       self_emotional = Some 1, family_history = Some 1\<rparr>]"

definition null_cells :: "'a person_scheme \<Rightarrow> 'a person_scheme" where
  "null_cells r = r\<lparr>gender := None, height_cm := None, weight_kg := None,
     belly_circumference_cm := None, smoking_status := None, exercise_frequency := None,
     salt_consumption := None, sugar_consumption := None, self_emotional := None,
     family_history := None\<rparr>"

definition nulled_row :: "int \<Rightarrow> int \<Rightarrow> int \<Rightarrow> int \<Rightarrow> row" where
  \<comment> \<open>a finished row in which the missing-value step has nulled every cell it can\<close>
  "nulled_row i a l d =
     \<lparr>row_id = i, age = a, gender = None, height_cm = None, weight_kg = None,
      belly_circumference_cm = None, smoking_status = None, exercise_frequency = None,
      salt_consumption = None, sugar_consumption = None, self_emotional = None,
      family_history = None, label_hypertension = l, input_time = d\<rparr>"

text \<open>A file system without the input file, and one whose input file has no label column.\<close>

definition no_split :: "int \<Rightarrow> table \<Rightarrow> cell list \<Rightarrow> error + table \<times> table" where
  "no_split random_state df stratify = Inl ValueError"

definition empty_world :: world where
  "empty_world = \<lparr>files = Map.empty, printed = []\<rparr>"

definition unlabelled_world :: world where
  "unlabelled_world =
     \<lparr>files = [''dataset/dummy_data.csv'' \<mapsto> Csv [(''age'', [Num 25, Num 50])]],
      printed = []\<rparr>"

text \<open>The table that steps 1 to 10 give for two rows on a stream of zeros.\<close>

definition two_positive :: "row list" where
  "two_positive = [nulled_row 1 25 1 0, nulled_row 2 50 1 0]"

section \<open>Properties of the risk scorer\<close>

lemma clip_unit: "0 \<le> clip x 0 1 \<and> clip x 0 1 \<le> 1"
  by (simp add: clip_def)

text \<open>
  Claim C6. The three normalised scores lie in [0,1] for every row, and for every row
  whose height is not zero the risk scorer returns a probability in [0,1] (a zero
  height raises ZeroDivisionError instead).
\<close>

theorem scores_in_unit_interval:
  "0 \<le> genetic_score r \<and> genetic_score r \<le> 1 \<and>
   0 \<le> lifestyle_score r \<and> lifestyle_score r \<le> 1 \<and>
   0 \<le> health_score bmi r \<and> health_score bmi r \<le> 1 \<and>
   (height_cm r \<noteq> Some 0 \<longrightarrow>
      (\<exists>p g'. calculate_risk r g = Inr (p, g') \<and> 0 \<le> p \<and> p \<le> 1))"
proof -
  have "\<exists>p g'. calculate_risk r g = Inr (p, g') \<and> 0 \<le> p \<and> p \<le> 1"
    if "height_cm r \<noteq> Some 0"
  proof (cases "bmi_of r")
    case (Inl e)
    with that show ?thesis
      by (auto simp: bmi_of_def split: option.splits if_splits)
  next
    case (Inr b)
    then show ?thesis
      by (simp add: calculate_risk_def normal_def clip_unit)
  qed
  then show ?thesis
    unfolding genetic_score_def lifestyle_score_def health_score_def
    using clip_unit by blast
qed

theorem scores_in_unit_interval_witness:
  "height_cm (scenario_row Female 105) \<noteq> Some 0 \<and>
   (\<exists>p g'. calculate_risk (scenario_row Female 105) (sconst 0) = Inr (p, g')
              \<and> 0 \<le> p \<and> p \<le> 1)"
  using scores_in_unit_interval [of "scenario_row Female 105" "None" "sconst 0"]
  by (simp add: scenario_row_def)






section \<open>The prevalence adjustment loop\<close>

lemma sum_list_map_update:
  fixes f :: "'a \<Rightarrow> int"
  shows "i < length xs \<Longrightarrow>
    sum_list (map f (xs[i := y])) = sum_list (map f xs) - f (xs ! i) + f y"
  by (induction xs arbitrary: i) (auto split: nat.splits)

lemma label_mean_eq:
  "data \<noteq> [] \<Longrightarrow>
     label_mean fl data = Some (fl (real_of_int (label_sum data) / real (length data)))"
  by (simp add: label_mean_def label_sum_def)

lemma label_sum_bounds:
  "binary data \<Longrightarrow> 0 \<le> label_sum data \<and> label_sum data \<le> int (length data)"
  by (induction data) (auto simp: binary_def label_sum_def)

lemma exists_positive:
  "binary data \<Longrightarrow> 0 < label_sum data \<Longrightarrow>
     \<exists>i < length data. label_hypertension (data ! i) = 1"
proof (induction data)
  case Nil
  then show ?case by (simp add: label_sum_def)
next
  case (Cons r rs)
  show ?case
  proof (cases "label_hypertension r = 1")
    case True
    then show ?thesis by (intro exI [of _ 0]) simp
  next
    case False
    with Cons.prems have "binary rs" "0 < label_sum rs"
      by (auto simp: binary_def label_sum_def)
    with Cons.IH obtain i where "i < length rs" "label_hypertension (rs ! i) = 1"
      by blast
    then show ?thesis by (intro exI [of _ "Suc i"]) simp
  qed
qed

lemma exists_negative:
  "binary data \<Longrightarrow> label_sum data < int (length data) \<Longrightarrow>
     \<exists>i < length data. label_hypertension (data ! i) = 0"
proof (induction data)
  case Nil
  then show ?case by (simp add: label_sum_def)
next
  case (Cons r rs)
  show ?case
  proof (cases "label_hypertension r = 0")
    case True
    then show ?thesis by (intro exI [of _ 0]) simp
  next
    case False
    with Cons.prems have "binary rs" "label_sum rs < int (length rs)"
      by (auto simp: binary_def label_sum_def)
    with Cons.IH obtain i where "i < length rs" "label_hypertension (rs ! i) = 0"
      by blast
    then show ?thesis by (intro exI [of _ "Suc i"]) simp
  qed
qed

text \<open>One pass of the loop body, when a row with the label to flip exists.\<close>

lemma flip_one_ok:
  assumes bin: "binary data"
    and ex: "\<exists>i < length data. label_hypertension (data ! i) = l"
    and l: "l = 0 \<or> l = 1"
  shows "\<exists>data'. flip_one l (g, data) = Inr (stl g, data') \<and> length data' = length data \<and>
           binary data' \<and> label_sum data' = label_sum data + 1 - 2 * l"
proof -
  define cs where "cs = filter (\<lambda>i. label_hypertension (data ! i) = l) [0..<length data]"
  define c where "c = cs ! (nat \<lfloor>shd g\<rfloor> mod length cs)"
  from ex have ne: "cs \<noteq> []"
    by (auto simp: cs_def filter_empty_conv)
  then have "c \<in> set cs"
    by (simp add: c_def)
  then have c: "c < length data" "label_hypertension (data ! c) = l"
    by (auto simp: cs_def)
  define data' where "data' = data[c := (data ! c)\<lparr>label_hypertension := 1 - l\<rparr>]"
  have eq: "flip_one l (g, data) = Inr (stl g, data')"
    using ne by (simp add: flip_one_def Let_def randint_def cs_def [symmetric] c_def data'_def)
  have "set data' \<subseteq> insert ((data ! c)\<lparr>label_hypertension := 1 - l\<rparr>) (set data)"
    unfolding data'_def by (rule set_update_subset_insert)
  with bin l have b': "binary data'"
    by (auto simp: binary_def)
  have s: "label_sum data' = label_sum data + 1 - 2 * l"
    using c by (simp add: label_sum_def data'_def sum_list_map_update)
  from eq b' s show ?thesis
    by (auto simp: data'_def)
qed

lemma relabelled_refl: "relabelled r r"
  unfolding relabelled_def by (rule exI [of _ "label_hypertension r"]) simp

lemma relabelled_trans: "relabelled r r' \<Longrightarrow> relabelled r' r'' \<Longrightarrow> relabelled r r''"
  unfolding relabelled_def by auto

lemma flip_one_relabels:
  assumes "flip_one l s = Inr s'"
  shows "list_all2 relabelled (snd s) (snd s')"
proof -
  obtain g data where s: "s = (g, data)" by (cases s)
  from assms obtain c where "snd s' = data[c := (data ! c)\<lparr>label_hypertension := 1 - l\<rparr>]"
    by (auto simp: s flip_one_def Let_def split: if_splits prod.splits)
  moreover have "list_all2 relabelled (data[c := data ! c])
                   (data[c := (data ! c)\<lparr>label_hypertension := 1 - l\<rparr>])"
    by (intro list_all2_update_cong list_all2_refl relabelled_refl)
       (auto simp: relabelled_def)
  ultimately show ?thesis by (simp add: s)
qed

text \<open>
  With binary labels and a label count \<open>k\<close> that the test of the loop accepts, the loop
  moves the count one step towards \<open>k\<close> in each pass. Rounding is monotone and keeps 0:
  no more is used of it.
\<close>

lemma tolerance_above:
  assumes fl: "mono fl" "fl 0 = 0"
    and ok: "\<not> beyond_tolerance fl a t" and off: "beyond_tolerance fl b t" and ab: "a \<le> b"
  shows "t < b"
proof (rule ccontr)
  assume "\<not> t < b"
  with ab have le: "a - t \<le> b - t" "b - t \<le> 0" by simp_all
  from monoD [OF fl(1) le(1)] have "fl (a - t) \<le> fl (b - t)" .
  moreover from monoD [OF fl(1) le(2)] fl(2) have "fl (b - t) \<le> 0" by simp
  ultimately have "\<bar>fl (b - t)\<bar> \<le> \<bar>fl (a - t)\<bar>" by simp
  with ok off show False
    by (simp add: beyond_tolerance_def)
qed

lemma tolerance_below:
  assumes fl: "mono fl" "fl 0 = 0"
    and ok: "\<not> beyond_tolerance fl a t" and off: "beyond_tolerance fl b t" and ba: "b \<le> a"
  shows "\<not> t < b"
proof
  assume "t < b"
  with ba have le: "b - t \<le> a - t" "0 \<le> b - t" by simp_all
  from monoD [OF fl(1) le(1)] have "fl (b - t) \<le> fl (a - t)" .
  moreover from monoD [OF fl(1) le(2)] fl(2) have "0 \<le> fl (b - t)" by simp
  ultimately have "\<bar>fl (b - t)\<bar> \<le> \<bar>fl (a - t)\<bar>" by simp
  with ok off show False
    by (simp add: beyond_tolerance_def)
qed

lemma adjust_terminates_aux:
  assumes fl: "mono fl" "fl 0 = 0"
    and "0 \<le> k" "k \<le> int (length data)"
    and "\<not> beyond_tolerance fl (fl (real_of_int k / real (length data))) t"
    and "binary data" "\<bar>label_sum data - k\<bar> = int n"
  shows "\<exists>m \<le> n. \<exists>data'. adjust_prevalence fl t (g, data) = Some (Inr (sdrop m g, data'))"
  using assms(3-)
proof (induction n arbitrary: data g)
  case 0
  then have sk: "label_sum data = k" by simp
  show ?case
  proof (cases "data = []")
    case True
    then show ?thesis
      by (intro exI [of _ 0]) (simp add: adjust_prevalence.simps label_mean_def)
  next
    case False
    with 0 sk show ?thesis
      by (intro exI [of _ 0]) (simp add: adjust_prevalence.simps label_mean_eq)
  qed
next
  case (Suc n)
  have ne: "data \<noteq> []"
    using Suc.prems by (auto simp: label_sum_def)
  then have N: "0 < real (length data)" by simp
  define mu where "mu = fl (real_of_int (label_sum data) / real (length data))"
  define mk where "mk = fl (real_of_int k / real (length data))"
  have mean: "label_mean fl data = Some mu"
    using ne by (simp add: label_mean_eq mu_def)
  have ok: "\<not> beyond_tolerance fl mk t"
    using Suc.prems(3) by (simp add: mk_def)
  show ?case
  proof (cases "beyond_tolerance fl mu t")
    case False
    then show ?thesis
      by (intro exI [of _ 0]) (simp add: adjust_prevalence.simps mean)
  next
    case True
    from Suc.prems(5) consider
      (above) "label_sum data = k + int (Suc n)" | (below) "label_sum data + int (Suc n) = k"
      by linarith
    then show ?thesis
    proof cases
      case above
      then have "real_of_int k / real (length data)
          \<le> real_of_int (label_sum data) / real (length data)"
        using N by (simp add: divide_right_mono)
      with fl(1) have "mk \<le> mu"
        unfolding mu_def mk_def by (rule monoD)
      from tolerance_above [OF fl ok True this] have gt: "t < mu" .
      have "0 < label_sum data" using above Suc.prems(1) by linarith
      with Suc.prems(4) have "\<exists>i < length data. label_hypertension (data ! i) = 1"
        by (rule exists_positive)
      from flip_one_ok [OF Suc.prems(4) this, of g] obtain data' where
        f: "flip_one 1 (g, data) = Inr (stl g, data')" and len: "length data' = length data"
        and b: "binary data'" and s: "label_sum data' = label_sum data + 1 - 2 * 1"
        by auto
      have "\<bar>label_sum data' - k\<bar> = int n" using s above by simp
      from Suc.IH [OF Suc.prems(1) _ _ b this, of "stl g"] Suc.prems(2,3) len
      obtain m d where m: "m \<le> n"
        and r: "adjust_prevalence fl t (stl g, data') = Some (Inr (sdrop m (stl g), d))"
        by auto
      have "adjust_prevalence fl t (g, data) = Some (Inr (sdrop (Suc m) g, d))"
        using True gt f r by (subst adjust_prevalence.simps) (simp add: mean)
      with m show ?thesis by (intro exI [of _ "Suc m"]) auto
    next
      case below
      then have "real_of_int (label_sum data) / real (length data)
          \<le> real_of_int k / real (length data)"
        using N by (simp add: divide_right_mono)
      with fl(1) have "mu \<le> mk"
        unfolding mu_def mk_def by (rule monoD)
      from tolerance_below [OF fl ok True this] have lt: "\<not> t < mu" .
      have "label_sum data < int (length data)" using below Suc.prems(2) by linarith
      with Suc.prems(4) have "\<exists>i < length data. label_hypertension (data ! i) = 0"
        by (rule exists_negative)
      from flip_one_ok [OF Suc.prems(4) this, of g] obtain data' where
        f: "flip_one 0 (g, data) = Inr (stl g, data')" and len: "length data' = length data"
        and b: "binary data'" and s: "label_sum data' = label_sum data + 1 - 2 * 0"
        by auto
      have "\<bar>label_sum data' - k\<bar> = int n" using s below by simp
      from Suc.IH [OF Suc.prems(1) _ _ b this, of "stl g"] Suc.prems(2,3) len
      obtain m d where m: "m \<le> n"
        and r: "adjust_prevalence fl t (stl g, data') = Some (Inr (sdrop m (stl g), d))"
        by auto
      have "adjust_prevalence fl t (g, data) = Some (Inr (sdrop (Suc m) g, d))"
        using True lt f r by (subst adjust_prevalence.simps) (simp add: mean)
      with m show ?thesis by (intro exI [of _ "Suc m"]) auto
    qed
  qed
qed

text \<open>What holds of every run of the loop that returns.\<close>

lemma adjust_prevalence_post:
  assumes "adjust_prevalence fl t s = Some y"
  shows "\<forall>s' m. y = Inr s' \<longrightarrow> label_mean fl (snd s') = Some m
           \<longrightarrow> \<not> beyond_tolerance fl m t"
proof (rule adjust_prevalence.raw_induct
    [where P = "\<lambda>fl t s y. \<forall>s' m. y = Inr s' \<longrightarrow> label_mean fl (snd s') = Some m
                    \<longrightarrow> \<not> beyond_tolerance fl m t", OF _ assms], goal_cases)
  case (1 f fl t s y)
  from 1(2) show ?case
    by (auto split: option.splits if_splits sum.splits dest: 1(1))
qed

lemma adjust_prevalence_relabels:
  assumes "adjust_prevalence fl t s = Some y"
  shows "\<forall>s'. y = Inr s' \<longrightarrow> list_all2 relabelled (snd s) (snd s')"
proof (rule adjust_prevalence.raw_induct
    [where P = "\<lambda>fl t s y. \<forall>s'. y = Inr s' \<longrightarrow> list_all2 relabelled (snd s) (snd s')",
     OF _ assms], goal_cases)
  case (1 f fl t s y)
  have refl: "list_all2 relabelled d d" for d :: "'a labelled_scheme list"
    by (intro list_all2_refl relabelled_refl)
  have step: "list_all2 relabelled (snd s) d'"
    if "flip_one l s = Inr u" "f fl t u = Some (Inr (g', d'))" for l u g' d'
  proof -
    from that(1) have "list_all2 relabelled (snd s) (snd u)"
      by (rule flip_one_relabels)
    moreover from 1(1) [OF that(2)] have "list_all2 relabelled (snd u) d'"
      by simp
    ultimately show ?thesis
      by (rule list_all2_trans [rotated]) (rule relabelled_trans)
  qed
  from 1(2) show ?case
    by (auto split: option.splits if_splits sum.splits simp: refl intro: step)
qed

text \<open>
  For two rows and the target 0.29 no label count is within the tolerance (the mean is
  0, 0.5 or 1), and a row to flip always exists: the loop cannot return. The means
  differ from the target by more than 0.2, so this is shown for arithmetic that rounds
  nothing.
\<close>

lemma adjust_prevalence_two_rows:
  assumes "adjust_prevalence fl t s = Some y"
  shows "fl = exact \<longrightarrow> t = 29 / 100 \<longrightarrow> length (snd s) = 2 \<longrightarrow> binary (snd s) \<longrightarrow> False"
proof (rule adjust_prevalence.raw_induct
    [where P = "\<lambda>fl t s y. fl = exact \<longrightarrow> t = 29 / 100 \<longrightarrow> length (snd s) = 2
                    \<longrightarrow> binary (snd s) \<longrightarrow> False",
     OF _ assms], goal_cases)
  case (1 f fl t s y)
  note IH = 1(1) and body = 1(2)
  show ?case
  proof (intro impI)
    assume fl: "fl = exact"
      and t: "t = 29 / 100" and len: "length (snd s) = 2" and bin: "binary (snd s)"
    obtain g data where s: "s = (g, data)" by (cases s)
    from len s have ne: "data \<noteq> []" by auto
    have mean: "label_mean exact data = Some (real_of_int (label_sum data) / 2)"
      using ne len s by (simp add: label_mean_eq exact_def)
    have step: "f exact t (stl g, data') = Some y \<Longrightarrow> length data' = length data \<Longrightarrow>
        binary data' \<Longrightarrow> False" for data'
      using IH [of exact t "(stl g, data')" y] t len s by simp
    note body = body [unfolded fl]
    from label_sum_bounds [of data] bin s len
    consider (zero) "label_sum data = 0" | (one) "label_sum data = 1" | (two) "label_sum data = 2"
      by fastforce
    then show False
    proof cases
      case zero
      with bin s len have "\<exists>i < length data. label_hypertension (data ! i) = 0"
        by (intro exists_negative) auto
      from flip_one_ok [OF _ this, of g] bin s obtain data' where
        f: "flip_one 0 (g, data) = Inr (stl g, data')" and l': "length data' = length data"
        and b': "binary data'" by auto
      from zero body have "f exact t (stl g, data') = Some y"
        by (simp add: s mean t f beyond_tolerance_def exact_def)
      then show False using l' b' by (rule step)
    next
      case one
      with bin s len have "\<exists>i < length data. label_hypertension (data ! i) = 1"
        by (intro exists_positive) auto
      from flip_one_ok [OF _ this, of g] bin s obtain data' where
        f: "flip_one 1 (g, data) = Inr (stl g, data')" and l': "length data' = length data"
        and b': "binary data'" by auto
      from one body have "f exact t (stl g, data') = Some y"
        by (simp add: s mean t f beyond_tolerance_def exact_def)
      then show False using l' b' by (rule step)
    next
      case two
      with bin s len have "\<exists>i < length data. label_hypertension (data ! i) = 1"
        by (intro exists_positive) auto
      from flip_one_ok [OF _ this, of g] bin s obtain data' where
        f: "flip_one 1 (g, data) = Inr (stl g, data')" and l': "length data' = length data"
        and b': "binary data'" by auto
      from two body have "f exact t (stl g, data') = Some y"
        by (simp add: s mean t f beyond_tolerance_def exact_def)
      then show False using l' b' by (rule step)
    qed
  qed
qed

section \<open>Runs on two rows\<close>

text \<open>
  The function is evaluated step by step for \<open>n_samples = 2\<close> on streams that start with
  zeros: 24 draws for the features, 4 for the noise and the labels, none for the
  outliers (there are none for two rows), 2 for the timestamps and 20 for the
  missing values.
\<close>

lemma zeros_numeral: "zeros (numeral k) s = 0 ## zeros (pred_numeral k) s"
  by (simp add: numeral_eq_Suc)

lemma sconst_unfold: "sconst (0::real) = 0 ## sconst 0"
  by (subst siterate.ctr) simp

lemma zeros_sconst: "zeros n (sconst 0) = sconst 0"
proof (induction n)
  case 0
  show ?case by simp
next
  case (Suc n)
  show ?case
    by (simp only: zeros.simps Suc sconst_unfold [symmetric])
qed

lemma sample_n_numeral:
  "sample_n (numeral k) f g =
     (case f g of (x, g') \<Rightarrow> case sample_n (pred_numeral k) f g' of (xs, g'') \<Rightarrow> (x # xs, g''))"
  by (simp add: numeral_eq_Suc)

lemma sigmoid_bounds: "0 < sigmoid p \<and> sigmoid p < 1"
proof -
  have "0 < exp (- 12 * (p - 0.5))" by simp
  then show ?thesis
    unfolding sigmoid_def by (simp add: add_pos_pos)
qed

lemma binomial1_sigmoid_low: "binomial1 (sigmoid p) (0 ## s) = (1, s)"
  using sigmoid_bounds [of p] by (simp add: binomial1_def)

lemmas feature_defs = sample_features_def generate_weight_def base_bmi_def generate_belly_def
  get_lifestyle_probs_def py_int_def clip_def

lemmas risk_defs = calculate_risk_def bmi_of_def nan_ge_def is_young_def genetic_score_def
  lifestyle_score_def waist_ratio_def health_score_def risk_before_noise_def clip_def

lemma features_on_zeros: "sample_features 2 (zeros 24 s) = Inr (feature_rows, s)"
  by (simp add: feature_defs feature_rows_def sample_n_numeral zeros_numeral
      normal_def randint_def choice_def choice_p_def binomial1_def
      Let_def upt_rec power2_eq_square
      cong: let_weak_cong prod.case_cong_weak)

lemma labels_on_zeros:
  "sample_labels feature_rows (zeros 4 s) = Inr (map (\<lambda>r. with_label r 1) feature_rows, s)"
  by (simp add: sample_labels_def feature_rows_def risk_defs normal_def zeros_numeral
      binomial1_sigmoid_low power2_eq_square)

lemma no_outliers_for_two: "add_outliers 2 data g = Inr (data, g)"
  by (simp add: add_outliers_def n_outliers_of_def py_int_def loc_assign_def py_slice_def
      raising_def)

lemma timestamps_for_two:
  "add_timestamps 2 [r1, r2] (x ## y ## s) =
     ([with_time r1 (nat \<lfloor>x\<rfloor> mod 365), with_time r2 (nat \<lfloor>y\<rfloor> mod 365)], s)"
  by (simp add: add_timestamps_def sample_n_numeral randint_def)

lemma missing_on_zeros: "add_missing [r1, r2] (zeros 20 s) = ([null_cells r1, null_cells r2], s)"
  by (simp add: add_missing_def missing_probs_def null_column_def random_def zeros_numeral
      null_cells_def)

lemma table_on_zeros:
  "table_before_adjustment (zeros 24 (zeros 4 (x ## y ## zeros 20 s))) 2 =
     Inr ([nulled_row 1 25 1 (int (nat \<lfloor>x\<rfloor> mod 365)),
           nulled_row 2 50 1 (int (nat \<lfloor>y\<rfloor> mod 365))], s)"
  by (simp add: table_before_adjustment_def raising_def features_on_zeros labels_on_zeros
      no_outliers_for_two)
     (simp add: feature_rows_def timestamps_for_two missing_on_zeros null_cells_def
      with_time_def with_label_def nulled_row_def)

lemma zero_stream_shape:
  "sconst 0 = zeros 24 (zeros 4 (0 ## 0 ## zeros 20 (sconst 0)))"
  by (simp only: zeros_sconst sconst_unfold [symmetric])

lemma late_one_shape:
  "late_one = zeros 24 (zeros 4 (1 ## 0 ## zeros 20 (sconst 0)))"
  by (simp only: late_one_def zeros_sconst sconst_unfold [symmetric])

lemma table_zero:
  "table_before_adjustment (sconst 0) 2 =
     Inr ([nulled_row 1 25 1 0, nulled_row 2 50 1 0], sconst 0)"
  by (subst zero_stream_shape) (simp add: table_on_zeros)

lemma table_late_one:
  "table_before_adjustment late_one 2 =
     Inr ([nulled_row 1 25 1 1, nulled_row 2 50 1 0], sconst 0)"
  by (subst late_one_shape) (simp add: table_on_zeros)

lemma adjust_half_first:
  "label_hypertension r1 = 1 \<Longrightarrow> label_hypertension r2 = 1 \<Longrightarrow>
     adjust_prevalence exact (1 / 2) (0 ## s, [r1, r2]) =
       Some (Inr (s, [r1\<lparr>label_hypertension := 0\<rparr>, r2]))"
  apply (subst adjust_prevalence.simps)
  apply (simp add: label_mean_def beyond_tolerance_def exact_def flip_one_def randint_def)
  apply (subst adjust_prevalence.simps)
  apply (simp add: label_mean_def beyond_tolerance_def exact_def)
  done

lemma adjust_half_second:
  "label_hypertension r1 = 1 \<Longrightarrow> label_hypertension r2 = 1 \<Longrightarrow>
     adjust_prevalence exact (1 / 2) (1 ## s, [r1, r2]) =
       Some (Inr (s, [r1, r2\<lparr>label_hypertension := 0\<rparr>]))"
  apply (subst adjust_prevalence.simps)
  apply (simp add: label_mean_def beyond_tolerance_def exact_def flip_one_def randint_def)
  apply (subst adjust_prevalence.simps)
  apply (simp add: label_mean_def beyond_tolerance_def exact_def)
  done

lemma adjust_to_zero:
  "label_hypertension r1 = 1 \<Longrightarrow> label_hypertension r2 = 1 \<Longrightarrow>
     adjust_prevalence exact 0 (0 ## 0 ## s, [r1, r2]) =
       Some (Inr (s, [r1\<lparr>label_hypertension := 0\<rparr>, r2\<lparr>label_hypertension := 0\<rparr>]))"
  apply (subst adjust_prevalence.simps)
  apply (simp add: label_mean_def beyond_tolerance_def exact_def flip_one_def randint_def)
  apply (subst adjust_prevalence.simps)
  apply (simp add: label_mean_def beyond_tolerance_def exact_def flip_one_def randint_def)
  apply (subst adjust_prevalence.simps)
  apply (simp add: label_mean_def beyond_tolerance_def exact_def)
  done

lemma run_zero_half:
  "create_dummy_data exact (\<lambda>_. sconst 0) g0 2 (1 / 2) =
     Some (Inr [nulled_row 1 25 0 0, nulled_row 2 50 1 0])"
  apply (simp add: create_dummy_data_def table_zero)
  apply (subst sconst_unfold)
  apply (simp add: adjust_half_first nulled_row_def)
  done

lemma run_zero_zero:
  "create_dummy_data exact (\<lambda>_. sconst 0) g0 2 0 =
     Some (Inr [nulled_row 1 25 0 0, nulled_row 2 50 0 0])"
  apply (simp add: create_dummy_data_def table_zero)
  apply (subst sconst_unfold)
  apply (subst sconst_unfold)
  apply (simp add: adjust_to_zero nulled_row_def)
  done

lemma run_late_half:
  "create_dummy_data exact (\<lambda>_. late_one) g0 2 (1 / 2) =
     Some (Inr [nulled_row 1 25 0 1, nulled_row 2 50 1 0])"
  apply (simp add: create_dummy_data_def table_late_one)
  apply (subst sconst_unfold)
  apply (simp add: adjust_half_first nulled_row_def)
  done

lemma spec_late_half:
  "create_in_spec_order exact (\<lambda>_. late_one) g0 2 (1 / 2) =
     Some (Inr [nulled_row 1 25 1 0, nulled_row 2 50 0 0])"
  apply (simp add: create_in_spec_order_def late_one_def raising_def features_on_zeros
      labels_on_zeros)
  apply (simp add: feature_rows_def adjust_half_second with_label_def no_outliers_for_two
      raising_def)
  apply (subst sconst_unfold)
  apply (subst sconst_unfold)
  apply (subst zeros_sconst [of 20, symmetric])
  apply (simp add: timestamps_for_two missing_on_zeros null_cells_def with_time_def
      nulled_row_def)
  done

section \<open>Claims about the whole function\<close>

lemma create_dummy_data_returns:
  assumes "create_dummy_data fl seed g0 n t = Some (Inr data)"
  shows "\<exists>data0 g5 g6. table_before_adjustment (seed 42) n = Inr (data0, g5) \<and>
           adjust_prevalence fl t (g5, data0) = Some (Inr (g6, data))"
proof (cases "table_before_adjustment (seed 42) n")
  case (Inl e)
  with assms show ?thesis by (simp add: create_dummy_data_def)
next
  case (Inr p)
  obtain data0 g5 where p: "p = (data0, g5)" by (cases p)
  from assms Inr p obtain y where y: "adjust_prevalence fl t (g5, data0) = Some y"
    and m: "map_sum id snd y = Inr data"
    by (auto simp: create_dummy_data_def)
  from m obtain g6 where "y = Inr (g6, data)"
    by (cases y) auto
  with y Inr p show ?thesis by simp
qed

lemma length_sample_n: "sample_n k f g = (xs, g') \<Longrightarrow> length xs = k"
  by (induction k arbitrary: g xs) (auto split: prod.splits)

lemma sample_features_negative: "n < 0 \<Longrightarrow> sample_features n g = Inl ValueError"
proof -
  assume "n < 0"
  then have "n div 2 < 0" by simp
  then show ?thesis by (simp add: sample_features_def)
qed

lemma table_of_no_rows: "table_before_adjustment g 0 = Inr ([], g)"
proof -
  have f: "sample_features 0 g = Inr ([], g)"
    by (simp add: sample_features_def)
  have l: "sample_labels [] g = Inr ([], g)"
    by (simp add: sample_labels_def)
  have o: "add_outliers 0 [] g = Inr ([], g)"
    by (simp add: add_outliers_def n_outliers_of_def py_int_def loc_assign_def py_slice_def
        raising_def)
  have s: "add_timestamps 0 [] g = ([], g)"
    by (simp add: add_timestamps_def)
  have m: "add_missing [] g = ([], g)"
    by (simp add: add_missing_def missing_probs_def null_column_def)
  show ?thesis
    by (simp add: table_before_adjustment_def raising_def f l o s m)
qed

lemma run_of_no_rows: "create_dummy_data fl seed g0 0 t = Some (Inr [])"
  by (simp add: create_dummy_data_def table_of_no_rows adjust_prevalence.simps label_mean_def)

text \<open>
  Claim C1, as amended. The loop has no iteration bound and no failure of its own. For
  a table of \<open>N\<close> rows with binary labels, if the test of the loop, as the program
  computes it, accepts the mean of some label count \<open>k\<close> between 0 and \<open>N\<close>, the loop
  returns after at most \<open>N\<close> passes; each pass takes one draw, so the generator it
  returns is the given one without its first \<open>m \<le> N\<close> draws. The rounding of the
  program's arithmetic enters only as a monotone map that keeps 0.
\<close>

theorem adjust_prevalence_terminates:
  assumes "mono fl" "fl 0 = 0"
    and "binary data" "k \<le> length data"
    and "\<not> beyond_tolerance fl (fl (real k / real (length data))) t"
  shows "\<exists>m \<le> length data. \<exists>data'.
           adjust_prevalence fl t (g, data) = Some (Inr (sdrop m g, data'))"
proof -
  from label_sum_bounds [OF assms(3)] assms(4)
  have "nat \<bar>label_sum data - int k\<bar> \<le> length data" by linarith
  moreover have "\<exists>m \<le> nat \<bar>label_sum data - int k\<bar>. \<exists>data'.
           adjust_prevalence fl t (g, data) = Some (Inr (sdrop m g, data'))"
    using assms by (intro adjust_terminates_aux [where k = "int k"]) auto
  ultimately show ?thesis
    by (meson order_trans)
qed

theorem adjust_prevalence_terminates_witness:
  "mono exact \<and> exact 0 = 0 \<and> binary two_positive \<and> (1 :: nat) \<le> length two_positive \<and>
   \<not> beyond_tolerance exact (exact (real 1 / real (length two_positive))) (1 / 2) \<and>
   (\<exists>m \<le> length two_positive. \<exists>data'.
      adjust_prevalence exact (1 / 2) (sconst 0, two_positive)
        = Some (Inr (sdrop m (sconst 0), data')))"
  using adjust_prevalence_terminates [of exact two_positive 1 "1 / 2" "sconst 0"]
  by (simp add: two_positive_def binary_def nulled_row_def exact_def mono_def
      beyond_tolerance_def)

text \<open>
  The claim as written fails for the valid configuration of two samples and the target
  0.29: the run never returns.
\<close>

theorem calibration_never_returns:
  "create_dummy_data exact (\<lambda>_. sconst 0) (sconst 0) 2 (29 / 100) = None"
proof -
  have "adjust_prevalence exact (29 / 100) (sconst 0, two_positive) = None"
  proof (cases "adjust_prevalence exact (29 / 100) (sconst 0, two_positive)")
    case None
    then show ?thesis .
  next
    case (Some y)
    from adjust_prevalence_two_rows [OF Some] show ?thesis
      by (simp add: two_positive_def binary_def nulled_row_def)
  qed
  then show ?thesis
    by (simp add: create_dummy_data_def table_zero two_positive_def)
qed

text \<open>
  Claim C5, as amended. Whenever \<open>create_dummy_data\<close> returns a table with at least one
  row, the test of the loop accepts the mean of \<open>label_hypertension\<close>: the difference
  of the mean from the target prevalence, as the program computes it, is at most the
  program's 0.01. In arithmetic that rounds nothing this is \<open>\<bar>mean - t\<bar> \<le> 0.01\<close>.
\<close>

theorem prevalence_within_tolerance:
  assumes "create_dummy_data fl seed g0 n t = Some (Inr data)" and "data \<noteq> []"
  shows "\<exists>m. label_mean fl data = Some m \<and> \<bar>fl (m - t)\<bar> \<le> fl 0.01 \<and>
           ((\<forall>x. fl x = x) \<longrightarrow> \<bar>m - t\<bar> \<le> 0.01)"
proof -
  from create_dummy_data_returns [OF assms(1)] obtain d g s' where
    run: "adjust_prevalence fl t (g, d) = Some (Inr s')" and data: "data = snd s'"
    by auto
  from assms(2) obtain m where m: "label_mean fl data = Some m"
    by (auto simp: label_mean_def)
  with adjust_prevalence_post [OF run] data have "\<bar>fl (m - t)\<bar> \<le> fl 0.01"
    by (simp add: beyond_tolerance_def)
  with m show ?thesis by auto
qed

theorem prevalence_within_tolerance_witness:
  "create_dummy_data exact (\<lambda>_. sconst 0) (sconst 0) 2 (1 / 2) =
     Some (Inr [nulled_row 1 25 0 0, nulled_row 2 50 1 0]) \<and>
   [nulled_row 1 25 0 0, nulled_row 2 50 1 0] \<noteq> [] \<and> (\<forall>x. exact x = x) \<and>
   (\<exists>m. label_mean exact [nulled_row 1 25 0 0, nulled_row 2 50 1 0] = Some m
           \<and> \<bar>exact (m - 1 / 2)\<bar> \<le> exact 0.01 \<and> \<bar>m - 1 / 2\<bar> \<le> 0.01)"
  using prevalence_within_tolerance [OF run_zero_half [of "sconst 0"]] run_zero_half
  by (simp add: exact_def)

text \<open>
  The claim as written fails for a sample count of zero: the function returns the empty
  table, whose mean is NaN and within no tolerance of any target.
\<close>

theorem empty_dataset_counterexample:
  "create_dummy_data exact (\<lambda>_. sconst 0) (sconst 0) 0 (29 / 100) = Some (Inr []) \<and>
   label_mean exact ([] :: row list) = None"
  by (simp add: run_of_no_rows label_mean_def)

text \<open>
  Claim C2, as amended. The steps run in the order features, labels, outliers,
  timestamps, missing values, prevalence adjustment, with one generator threaded
  through them: the adjustment comes last and is applied to the table that the outlier
  and missing-value steps have already changed, and the returned table differs from
  that table in labels only.
\<close>

theorem adjustment_runs_last:
  assumes "create_dummy_data fl seed g0 n t = Some (Inr data)"
  shows "\<exists>features g1 labelled g2 outliers g3 stamped g4 data0 g5 g6.
           sample_features n (seed 42) = Inr (features, g1) \<and>
           sample_labels features g1 = Inr (labelled, g2) \<and>
           add_outliers n labelled g2 = Inr (outliers, g3) \<and>
           add_timestamps n outliers g3 = (stamped, g4) \<and>
           add_missing stamped g4 = (data0, g5) \<and>
           adjust_prevalence fl t (g5, data0) = Some (Inr (g6, data)) \<and>
           list_all2 relabelled data0 data"
proof -
  from create_dummy_data_returns [OF assms] obtain data0 g5 g6 where
    tab: "table_before_adjustment (seed 42) n = Inr (data0, g5)" and
    run: "adjust_prevalence fl t (g5, data0) = Some (Inr (g6, data))"
    by auto
  from tab obtain features g1 labelled g2 outliers g3 where
    "sample_features n (seed 42) = Inr (features, g1)"
    "sample_labels features g1 = Inr (labelled, g2)"
    "add_outliers n labelled g2 = Inr (outliers, g3)"
    "(case add_timestamps n outliers g3 of (d, g) \<Rightarrow> add_missing d g) = (data0, g5)"
    by (auto simp: table_before_adjustment_def raising_def split: sum.splits prod.splits)
  moreover obtain stamped g4 where "add_timestamps n outliers g3 = (stamped, g4)"
    by (cases "add_timestamps n outliers g3")
  moreover from adjust_prevalence_relabels [OF run]
  have "list_all2 relabelled data0 data" by simp
  ultimately show ?thesis
    using run by auto
qed

theorem adjustment_runs_last_witness:
  "create_dummy_data exact (\<lambda>_. late_one) (sconst 0) 2 (1 / 2) =
     Some (Inr [nulled_row 1 25 0 1, nulled_row 2 50 1 0]) \<and>
   (\<exists>features g1 labelled g2 outliers g3 stamped g4 data0 g5 g6.
           sample_features 2 late_one = Inr (features, g1) \<and>
           sample_labels features g1 = Inr (labelled, g2) \<and>
           add_outliers 2 labelled g2 = Inr (outliers, g3) \<and>
           add_timestamps 2 outliers g3 = (stamped, g4) \<and>
           add_missing stamped g4 = (data0, g5) \<and>
           adjust_prevalence exact (1 / 2) (g5, data0) =
             Some (Inr (g6, [nulled_row 1 25 0 1, nulled_row 2 50 1 0])) \<and>
           list_all2 relabelled data0 [nulled_row 1 25 0 1, nulled_row 2 50 1 0])"
  using adjustment_runs_last [OF run_late_half [of "sconst 0"]] run_late_half
  by simp

text \<open>
  The claim as written fails: on the stream \<open>late_one\<close>, for two samples and the target
  0.5, the function returns another table than the steps in the order of the
  specification do. With the adjustment last, the draw that is 1 sets the first
  timestamp and the first row is flipped; with the adjustment as stage 5, the same
  draw picks the second row to flip.
\<close>

theorem stage_order_counterexample:
  "create_dummy_data exact (\<lambda>_. late_one) (sconst 0) 2 (1 / 2) \<noteq>
   create_in_spec_order exact (\<lambda>_. late_one) (sconst 0) 2 (1 / 2)"
  by (simp add: run_late_half spec_late_half nulled_row_def)

text \<open>
  Claim C7, as amended. The function checks nothing before it samples and has no
  configuration error. A negative sample count fails with the ValueError of the first
  sampling call, and a sample count of zero returns the empty table, whatever the
  target prevalence.
\<close>

theorem no_configuration_check:
  "(n < 0 \<longrightarrow> create_dummy_data fl seed g0 n t = Some (Inl ValueError)) \<and>
   create_dummy_data fl seed g0 0 t = Some (Inr [])"
proof (intro conjI impI)
  assume "n < 0"
  then show "create_dummy_data fl seed g0 n t = Some (Inl ValueError)"
    by (simp add: create_dummy_data_def table_before_adjustment_def raising_def
        sample_features_negative)
next
  show "create_dummy_data fl seed g0 0 t = Some (Inr [])"
    by (rule run_of_no_rows)
qed

theorem no_configuration_check_witness:
  "(- 2 :: int) < 0 \<and>
   create_dummy_data exact (\<lambda>_. sconst 0) (sconst 0) (- 2) 0 = Some (Inl ValueError) \<and>
   create_dummy_data exact (\<lambda>_. sconst 0) (sconst 0) 0 0 = Some (Inr [])"
  using no_configuration_check [of "- 2" exact "\<lambda>_. sconst 0" "sconst 0" 0]
  by simp

text \<open>
  The claim as written fails for the target prevalence 0, which is outside the open
  interval: for two samples the function reports no error and returns a table, with
  both labels flipped to 0.
\<close>

theorem invalid_target_counterexample:
  "create_dummy_data exact (\<lambda>_. sconst 0) (sconst 0) 2 0 =
     Some (Inr [nulled_row 1 25 0 0, nulled_row 2 50 0 0])"
  by (rule run_zero_zero)

section \<open>The outlier step\<close>

lemma choice_distinct_props:
  "k \<le> length pool \<Longrightarrow>
     length (fst (choice_distinct pool k g)) = k \<and>
     set (fst (choice_distinct pool k g)) \<subseteq> set pool"
proof (induction k arbitrary: pool g)
  case 0
  show ?case by simp
next
  case (Suc k)
  then have ne: "pool \<noteq> []" by auto
  define j where "j = nat \<lfloor>shd g\<rfloor> mod length pool"
  from ne have j: "j < length pool" by (simp add: j_def)
  have len: "length (remove_nth j pool) = length pool - 1"
    using j by (simp add: remove_nth_def)
  have "set (take j pool) \<subseteq> set pool" "set (drop (Suc j) pool) \<subseteq> set pool"
    by (rule set_take_subset, rule set_drop_subset)
  then have sub: "set (remove_nth j pool) \<subseteq> set pool"
    by (simp add: remove_nth_def)
  obtain js g'' where r: "choice_distinct (remove_nth j pool) k (stl g) = (js, g'')"
    by (cases "choice_distinct (remove_nth j pool) k (stl g)")
  from Suc.prems len have "k \<le> length (remove_nth j pool)" by simp
  from Suc.IH [OF this, of "stl g"] r
  have js: "length js = k" "set js \<subseteq> set (remove_nth j pool)"
    by simp_all
  have "choice_distinct pool (Suc k) g = (pool ! j # js, g'')"
    using ne r by (simp add: randint_def j_def)
  moreover have "pool ! j \<in> set pool"
    using j by (rule nth_mem)
  ultimately show ?case
    using js sub by auto
qed

lemma loc_assign_ok:
  assumes "\<forall>i \<in> set idxs. i < length data" "length idxs = length vals"
  shows "\<exists>d. loc_assign idxs vals upd data = Inr d \<and> length d = length data"
proof -
  have "length (fold (\<lambda>(i, v) d. d[i := upd (d ! i) v]) ivs d) = length d" for ivs d
    by (induction ivs arbitrary: d) (auto split: prod.splits)
  with assms show ?thesis
    by (auto simp: loc_assign_def)
qed

lemma loc_assign_mismatch:
  assumes "\<forall>i \<in> set idxs. i < length data" "length idxs \<noteq> length vals"
  shows "loc_assign idxs vals upd data = Inl ValueError"
  using assms by (auto simp: loc_assign_def)

lemma n_outliers_le: "0 \<le> n \<Longrightarrow> n_outliers_of n \<le> nat n"
proof -
  assume n: "0 \<le> n"
  then have "real_of_int n * 0.02 \<le> real_of_int n" by simp
  then have "\<lfloor>real_of_int n * 0.02\<rfloor> \<le> \<lfloor>real_of_int n\<rfloor>"
    by (rule floor_mono)
  then have "\<lfloor>real_of_int n * 0.02\<rfloor> \<le> n" by simp
  moreover from n have "py_int (real_of_int n * 0.02) = \<lfloor>real_of_int n * 0.02\<rfloor>"
    by (simp add: py_int_def)
  ultimately show ?thesis
    by (simp add: n_outliers_of_def)
qed

lemma quartiles_uneven:
  fixes n :: nat
  assumes "n mod 4 \<noteq> 0" "n mod 4 \<noteq> 1"
  shows "n div 2 - n div 4 \<noteq> n div 4"
proof -
  define q where "q = n div 4"
  have "n mod 4 < 4" by simp
  with assms consider (two) "n mod 4 = 2" | (three) "n mod 4 = 3"
    by linarith
  then show ?thesis
  proof cases
    case two
    with div_mult_mod_eq [of n 4] have n: "n = 2 * (2 * q + 1)"
      by (simp add: q_def)
    have "n div 2 = 2 * q + 1"
      by (subst n) simp
    then show ?thesis by (simp add: q_def)
  next
    case three
    with div_mult_mod_eq [of n 4] have n: "n = 2 * (2 * q + 1) + 1"
      by (simp add: q_def)
    have "n div 2 = 2 * q + 1"
      by (subst n) simp
    then show ?thesis by (simp add: q_def)
  qed
qed

lemma quartiles_one_over:
  fixes n :: nat
  assumes "n mod 4 = 1"
  shows "n div 2 - n div 4 = n div 4" "3 * n div 4 - n div 2 = n div 4"
    "n - 3 * n div 4 \<noteq> n div 4"
proof -
  define q where "q = n div 4"
  from assms div_mult_mod_eq [of n 4] have n: "n = 4 * q + 1"
    by (simp add: q_def)
  have "n = 2 * (2 * q) + 1" using n by simp
  then have h: "n div 2 = 2 * q"
    by simp
  have "3 * n = 4 * (3 * q) + 3" using n by simp
  then have t: "3 * n div 4 = 3 * q"
    by simp
  show "n div 2 - n div 4 = n div 4"
    using h by (simp add: q_def [symmetric])
  show "3 * n div 4 - n div 2 = n div 4"
    using h t by (simp add: q_def [symmetric])
  show "n - 3 * n div 4 \<noteq> n div 4"
    using t n by (simp add: q_def [symmetric])
qed

text \<open>
  Claim C3, where the code departs from it. The four slices of the index list cover
  all \<open>n_outliers\<close> indices, but only \<open>n_outliers div 4\<close> values are drawn for each:
  unless \<open>n_outliers\<close> is a multiple of four, one assignment gets fewer values than
  rows and raises ValueError, whatever the table and the draws.
\<close>

theorem outliers_fail_unless_multiple_of_four:
  assumes n: "0 \<le> n_samples" and len: "length data = nat n_samples"
    and rem: "n_outliers_of n_samples mod 4 \<noteq> 0"
  shows "add_outliers n_samples data g = Inl ValueError"
proof -
  define n where "n = n_outliers_of n_samples"
  define q where "q = n div 4"
  obtain idxs g1 where cd: "choice_distinct [0..<nat n_samples] n g = (idxs, g1)"
    by (cases "choice_distinct [0..<nat n_samples] n g")
  from n_outliers_le [OF n] have "n \<le> length [0..<nat n_samples]"
    by (simp add: n_def)
  from choice_distinct_props [OF this, of g] cd
  have li: "length idxs = n" and ri: "\<forall>i \<in> set idxs. i < length data"
    by (auto simp: len)
  obtain ws g2 where ws: "sample_n q (choice [1, 2, 800, 1000 :: real]) g1 = (ws, g2)"
    by (cases "sample_n q (choice [1, 2, 800, 1000 :: real]) g1")
  obtain hs g3 where hs: "sample_n q (choice [10, 15, 350, 400 :: real]) g2 = (hs, g3)"
    by (cases "sample_n q (choice [10, 15, 350, 400 :: real]) g2")
  obtain bs g4 where bs: "sample_n q (choice [10, 15, 400, 500 :: real]) g3 = (bs, g4)"
    by (cases "sample_n q (choice [10, 15, 400, 500 :: real]) g3")
  obtain as g5 where as: "sample_n q (choice [1, 2, 3, 120, 130, 140 :: int]) g4 = (as, g5)"
    by (cases "sample_n q (choice [1, 2, 3, 120, 130, 140 :: int]) g4")
  note lens = length_sample_n [OF ws] length_sample_n [OF hs] length_sample_n [OF bs]
    length_sample_n [OF as]
  have in_range: "\<forall>i \<in> set (take a idxs). i < length d" "\<forall>i \<in> set (drop a idxs). i < length d"
    "\<forall>i \<in> set (py_slice a b idxs). i < length d" if "length d = length data" for a b d
    using ri that
    by (auto simp: py_slice_def dest!: in_set_takeD in_set_dropD)
  have unfold: "add_outliers n_samples data g =
      raising (loc_assign (take q idxs) ws (\<lambda>r v. r\<lparr>weight_kg := Some v\<rparr>) data)
        (\<lambda>d1. raising (loc_assign (py_slice q (n div 2) idxs) hs
                         (\<lambda>r v. r\<lparr>height_cm := Some v\<rparr>) d1)
          (\<lambda>d2. raising (loc_assign (py_slice (n div 2) (3 * n div 4) idxs) bs
                           (\<lambda>r v. r\<lparr>belly_circumference_cm := Some v\<rparr>) d2)
            (\<lambda>d3. raising (loc_assign (drop (3 * n div 4) idxs) as
                             (\<lambda>r v. r\<lparr>age := v\<rparr>) d3)
              (\<lambda>d4. Inr (d4, g5)))))"
    by (simp add: add_outliers_def Let_def n_def [symmetric] q_def [symmetric] cd ws hs bs as)
  have "length (take q idxs) = length ws"
    using li lens by (simp add: q_def)
  from loc_assign_ok [OF in_range(1) this, of data] obtain d1 where
    d1: "loc_assign (take q idxs) ws (\<lambda>r v. r\<lparr>weight_kg := Some v\<rparr>) data = Inr d1"
    and l1: "length d1 = length data"
    by auto
  have l2: "length (py_slice q (n div 2) idxs) = n div 2 - q"
    using li by (simp add: py_slice_def q_def)
  have rem': "n mod 4 \<noteq> 0"
    using rem by (simp add: n_def)
  show ?thesis
  proof (cases "n mod 4 = 1")
    case False
    from quartiles_uneven [OF rem' False] have "n div 2 - q \<noteq> q"
      by (simp add: q_def)
    with l2 lens have "length (py_slice q (n div 2) idxs) \<noteq> length hs" by simp
    from loc_assign_mismatch [OF in_range(3) [OF l1] this]
    show ?thesis
      by (simp add: unfold d1 raising_def)
  next
    case True
    from quartiles_one_over [OF True]
    have e2: "n div 2 - q = q" and e3: "3 * n div 4 - n div 2 = q"
      and e4: "n - 3 * n div 4 \<noteq> q"
      by (simp_all add: q_def)
    from l2 e2 lens have "length (py_slice q (n div 2) idxs) = length hs" by simp
    from loc_assign_ok [OF in_range(3) [OF l1] this] obtain d2 where
      d2: "loc_assign (py_slice q (n div 2) idxs) hs (\<lambda>r v. r\<lparr>height_cm := Some v\<rparr>) d1
             = Inr d2"
      and l2': "length d2 = length data"
      using l1 by auto
    have "3 * n div 4 \<le> n" by simp
    then have "length (py_slice (n div 2) (3 * n div 4) idxs) = 3 * n div 4 - n div 2"
      using li by (simp add: py_slice_def)
    with e3 lens have "length (py_slice (n div 2) (3 * n div 4) idxs) = length bs"
      by simp
    from loc_assign_ok [OF in_range(3) [OF l2'] this] obtain d3 where
      d3: "loc_assign (py_slice (n div 2) (3 * n div 4) idxs) bs
             (\<lambda>r v. r\<lparr>belly_circumference_cm := Some v\<rparr>) d2 = Inr d3"
      and l3: "length d3 = length data"
      using l2' by auto
    have "length (drop (3 * n div 4) idxs) \<noteq> length as"
      using li e4 lens by simp
    from loc_assign_mismatch [OF in_range(2) [OF l3] this]
    show ?thesis
      by (simp add: unfold d1 d2 d3 raising_def)
  qed
qed

theorem outliers_fail_unless_multiple_of_four_witness:
  "(0 :: int) \<le> 100 \<and> length (replicate 100 (scenario_row Male 100)) = nat 100 \<and>
   n_outliers_of 100 mod 4 \<noteq> 0 \<and>
   add_outliers 100 (replicate 100 (scenario_row Male 100)) (sconst 0) = Inl ValueError"
proof -
  have n: "n_outliers_of 100 = 2"
    by (simp add: n_outliers_of_def py_int_def)
  then have "n_outliers_of 100 mod 4 \<noteq> 0" by simp
  with outliers_fail_unless_multiple_of_four
         [of 100 "replicate 100 (scenario_row Male 100)" "sconst 0"]
  show ?thesis by simp
qed

section \<open>Failures of the split utility\<close>

text \<open>
  Claim C9, as amended. When the input file is absent the split utility prints a
  message and returns \<open>None\<close>, without an exception and without writing a file; when
  the table has no \<open>label_hypertension\<close> column it prints a message and raises the
  KeyError again.
\<close>

theorem split_failure_modes:
  "(files w (path_join folder name) = None \<longrightarrow>
      split_data train_test_split folder name random_state w =
        (Returned None, say [File_not_found (path_join folder name)] w)) \<and>
   (files w (path_join folder name) = Some (Csv df) \<and> map_of df ''label_hypertension'' = None \<longrightarrow>
      split_data train_test_split folder name random_state w =
        (Raised KeyError,
         say [Loaded (path_join folder name), Total_records (len_table df),
              Split_error KeyError] w))"
  by (simp add: split_data_def read_csv_def split_body_def column_def raising_def say_def
      Let_def)

theorem split_failure_modes_witness:
  "(files empty_world (path_join ''dataset'' ''dummy_data.csv'') = None \<and>
    split_data no_split ''dataset'' ''dummy_data.csv'' 42 empty_world =
      (Returned None, say [File_not_found ''dataset/dummy_data.csv''] empty_world)) \<and>
   (files unlabelled_world (path_join ''dataset'' ''dummy_data.csv'') =
      Some (Csv [(''age'', [Num 25, Num 50])]) \<and>
    map_of [(''age'', [Num 25, Num 50])] ''label_hypertension'' = None \<and>
    fst (split_data no_split ''dataset'' ''dummy_data.csv'' 42 unlabelled_world) =
      Raised KeyError)"
  using split_failure_modes [where w = empty_world and folder = "''dataset''"
      and name = "''dummy_data.csv''" and train_test_split = no_split and random_state = 42]
    split_failure_modes [where w = unlabelled_world and folder = "''dataset''"
      and name = "''dummy_data.csv''" and df = "[(''age'', [Num 25, Num 50])]"
      and train_test_split = no_split and random_state = 42]
  by (simp add: empty_world_def unlabelled_world_def path_join_def)

text \<open>
  The claim as written fails for the absent file: the call does not abort, it returns
  \<open>None\<close> after printing one line.
\<close>

theorem absent_file_counterexample:
  "split_data no_split ''dataset'' ''dummy_data.csv'' 42 empty_world =
     (Returned None,
      \<lparr>files = Map.empty, printed = [File_not_found ''dataset/dummy_data.csv'']\<rparr>)"
  by (simp add: split_data_def read_csv_def empty_world_def say_def path_join_def)

end
